theory Spec2Isabelle
  imports Complex_Main
begin

section \<open>Python values used by lidar.py\<close>

text \<open>
  A Python \<open>bytes\<close> object is a list of 8-bit characters. The exceptions that the
  modelled functions can raise are values of \<open>error\<close>; a computation that may raise
  returns \<open>error + 'a\<close> with \<open>Inl\<close> for the exception.
\<close>

type_synonym bytes = string

datatype error =
  IndexError | ValueError | UnicodeDecodeError | OverflowError | ZeroDivisionError | TypeError

definition err_bind :: "error + 'a \<Rightarrow> ('a \<Rightarrow> error + 'b) \<Rightarrow> error + 'b" where
  "err_bind m f = (case m of Inl e \<Rightarrow> Inl e | Inr v \<Rightarrow> f v)"

text \<open>A list comprehension whose element expression may raise: left to right, first error wins.\<close>

fun err_map :: "('a \<Rightarrow> error + 'b) \<Rightarrow> 'a list \<Rightarrow> error + 'b list" where
  "err_map f [] = Inr []"
| "err_map f (x # xs) = err_bind (f x) (\<lambda>y. err_bind (err_map f xs) (\<lambda>ys. Inr (y # ys)))"

text \<open>\<open>xs[i]\<close> for a non-negative index: IndexError when out of range.\<close>

definition getitem :: "'a list \<Rightarrow> nat \<Rightarrow> error + 'a" where
  "getitem xs i = (if i < length xs then Inr (xs ! i) else Inl IndexError)"

text \<open>
  \<open>xs[start:stop]\<close>: a negative bound counts from the end, and both bounds are clamped to
  the length, so a slice never raises.
\<close>

definition slice_index :: "int \<Rightarrow> nat \<Rightarrow> nat" where
  "slice_index i n = (if i < 0 then nat (max 0 (i + int n)) else min (nat i) n)"

definition py_slice :: "'a list \<Rightarrow> int \<Rightarrow> int \<Rightarrow> 'a list" where
  "py_slice xs start stop =
     (let a = slice_index start (length xs); b = slice_index stop (length xs)
      in take (b - a) (drop a xs))"

text \<open>\<open>b.split(sep)\<close> with a one-byte separator: every separator ends a token, empty tokens are kept.\<close>

fun bytes_split :: "char \<Rightarrow> bytes \<Rightarrow> bytes list" where
  "bytes_split sep [] = [[]]"
| "bytes_split sep (c # cs) =
     (if c = sep then [] # bytes_split sep cs
      else (case bytes_split sep cs of t # ts \<Rightarrow> (c # t) # ts | [] \<Rightarrow> [[c]]))"

text \<open>\<open>b.decode('ascii')\<close>: UnicodeDecodeError on a byte above 0x7F.\<close>

definition decode_ascii :: "bytes \<Rightarrow> error + string" where
  "decode_ascii b = (if list_all (\<lambda>c. (of_char c :: nat) < 128) b then Inr b else Inl UnicodeDecodeError)"

subsection \<open>The built-in int(x, base) on bytes\<close>

text \<open>
  The interpreter's integer parser: ASCII whitespace is stripped on both sides, one sign is
  accepted, base 16 accepts a \<open>0x\<close> prefix, and digits may be grouped by single
  underscores. A digit is worth 37 when the byte is no digit at all, as in the
  interpreter's table. The interpreter's configurable limit on the number of decimal
  digits is not part of the model.
\<close>

definition Py_ISSPACE :: "char \<Rightarrow> bool" where
  "Py_ISSPACE c = (c \<in> set [CHR 0x09, CHR 0x0A, CHR 0x0B, CHR 0x0C, CHR 0x0D, CHR 0x20])"

definition digit_value :: "char \<Rightarrow> nat" where
  "digit_value c =
     (let n = (of_char c :: nat)
      in if 48 \<le> n \<and> n \<le> 57 then n - 48
         else if 97 \<le> n \<and> n \<le> 122 then n - 87
         else if 65 \<le> n \<and> n \<le> 90 then n - 55
         else 37)"

definition digit_char :: "nat \<Rightarrow> char \<Rightarrow> bool" where
  "digit_char base c = (digit_value c < base \<or> c = CHR ''_'')"

fun no_double_underscore :: "string \<Rightarrow> bool" where
  "no_double_underscore (c # d # cs) =
     (\<not> (c = CHR ''_'' \<and> d = CHR ''_'') \<and> no_double_underscore (d # cs))"
| "no_double_underscore cs = True"

definition digits_value :: "nat \<Rightarrow> string \<Rightarrow> int" where
  "digits_value base ds =
     foldl (\<lambda>a c. a * int base + int (digit_value c)) 0 (filter (\<lambda>c. c \<noteq> CHR ''_'') ds)"

definition take_sign :: "string \<Rightarrow> int \<times> string" where
  "take_sign s =
     (case s of
        [] \<Rightarrow> (1, s)
      | c # r \<Rightarrow> if c = CHR ''+'' then (1, r) else if c = CHR ''-'' then (- 1, r) else (1, s))"

definition skip_prefix :: "nat \<Rightarrow> string \<Rightarrow> string" where
  "skip_prefix base s =
     (case s of
        c0 # c1 # r \<Rightarrow>
          if base = 16 \<and> c0 = CHR ''0'' \<and> (c1 = CHR ''x'' \<or> c1 = CHR ''X'')
          then (case r of u # r' \<Rightarrow> if u = CHR ''_'' then r' else r | [] \<Rightarrow> r)
          else s
      | _ \<Rightarrow> s)"

definition py_int :: "nat \<Rightarrow> bytes \<Rightarrow> error + int" where
  "py_int base x =
     (let (sign, s) = take_sign (dropWhile Py_ISSPACE x);
          s' = skip_prefix base s;
          body = takeWhile (digit_char base) s';
          rest = dropWhile (digit_char base) s'
      in if body = [] \<or> hd body = CHR ''_'' \<or> last body = CHR ''_''
            \<or> \<not> no_double_underscore body \<or> \<not> list_all Py_ISSPACE rest
         then Inl ValueError
         else Inr (sign * digits_value base body))"

section \<open>Decoding a datagram\<close>

definition parse_number :: "bytes \<Rightarrow> error + int" where
  "parse_number nbr_str =
     (if CHR ''+'' \<in> set nbr_str \<or> CHR ''-'' \<in> set nbr_str
      then py_int 10 nbr_str
      else py_int 16 nbr_str)"


text \<open>
  \<open>a / b\<close> on two ints, for the samples. A sample is a measured value that is only stored
  and compared: it is modelled by the real it approximates, so the quotient is exact here,
  where the interpreter rounds it to the nearest double. The range of a double is kept: a
  quotient that rounds beyond the largest double raises OverflowError.
\<close>

definition float_overflow_bound :: int where
  "float_overflow_bound = 2 ^ 1024 - 2 ^ 970"

definition truediv :: "int \<Rightarrow> int \<Rightarrow> error + real" where
  "truediv a b =
     (if b = 0 then Inl ZeroDivisionError
      else if \<bar>b\<bar> * float_overflow_bound \<le> \<bar>a\<bar> then Inl OverflowError
      else Inr (real_of_int a / real_of_int b))"

text \<open>The dictionary \<open>header\<close> of decode_datagram has a fixed set of keys.\<close>

record header =
  TypeOfCommand :: string
  Command :: string
  VersionNumber :: int
  DeviceNumber :: int
  SerialNumber :: string
  DeviceStatus1 :: int
  DeviceStatus2 :: int
  TelegramCounter :: int
  TimeSinceStartup :: int
  TimeOfTransmission :: int
  AngularStepWidth :: int
  NumberOfData :: int
  Data :: "real list"

definition parse_item :: "bytes list \<Rightarrow> nat \<Rightarrow> error + int" where
  "parse_item items i = err_bind (getitem items i) parse_number"

definition decode_item :: "bytes list \<Rightarrow> nat \<Rightarrow> error + string" where
  "decode_item items i = err_bind (getitem items i) decode_ascii"

definition sample :: "bytes \<Rightarrow> error + real" where
  "sample x = err_bind (parse_number x) (\<lambda>n. truediv n 1000)"

text \<open>The assignments of lines 87 to 99 in their order, then the gate of line 102.\<close>

definition decode_datagram :: "bytes \<Rightarrow> error + header option" where
  "decode_datagram datagram =
     (let items = bytes_split (CHR '' '') datagram in
      err_bind (decode_item items 0) (\<lambda>type_of_command.
      err_bind (decode_item items 1) (\<lambda>command.
      err_bind (parse_item items 2) (\<lambda>version_number.
      err_bind (parse_item items 3) (\<lambda>device_number.
      err_bind (decode_item items 4) (\<lambda>serial_number.
      err_bind (parse_item items 5) (\<lambda>device_status1.
      err_bind (parse_item items 6) (\<lambda>device_status2.
      err_bind (parse_item items 7) (\<lambda>telegram_counter.
      err_bind (parse_item items 9) (\<lambda>time_since_startup.
      err_bind (parse_item items 10) (\<lambda>time_of_transmission.
      err_bind (parse_item items 24) (\<lambda>angular_step_width.
      err_bind (parse_item items 25) (\<lambda>number_of_data.
      err_bind (err_map sample (py_slice items 26 (26 + number_of_data))) (\<lambda>samples.
        if type_of_command \<noteq> ''sSN'' \<or> command \<noteq> ''LMDscandata''
           \<or> device_status1 \<noteq> 0 \<or> device_status2 \<noteq> 0
        then Inr None
        else Inr (Some \<lparr>TypeOfCommand = type_of_command, Command = command,
                         VersionNumber = version_number, DeviceNumber = device_number,
                         SerialNumber = serial_number, DeviceStatus1 = device_status1,
                         DeviceStatus2 = device_status2, TelegramCounter = telegram_counter,
                         TimeSinceStartup = time_since_startup,
                         TimeOfTransmission = time_of_transmission,
                         AngularStepWidth = angular_step_width,
                         NumberOfData = number_of_data, Data = samples\<rparr>)))))))))))))))"

section \<open>Extracting datagrams from the socket\<close>

text \<open>
  \<open>bytes_from_socket\<close> yields the bytes of the successive results of \<open>recv\<close> one at a
  time; it never ends by itself. The generator \<open>datagrams_from_socket\<close> is modelled by
  the list of datagrams it has yielded once a finite prefix of that byte sequence is
  consumed: \<open>seek_stx\<close> is the first inner loop, \<open>collect\<close> the second, with the bytes
  stored so far.
\<close>

definition STX :: char where "STX = CHR 0x02"
definition ETX :: char where "ETX = CHR 0x03"

definition bytes_from_socket :: "bytes list \<Rightarrow> bytes" where
  "bytes_from_socket received = concat received"

fun seek_stx :: "bytes \<Rightarrow> bytes list"
  and collect :: "bytes \<Rightarrow> bytes \<Rightarrow> bytes list" where
  "seek_stx [] = []"
| "seek_stx (b # bs) = (if b = STX then collect [] bs else seek_stx bs)"
| "collect datagram [] = []"
| "collect datagram (b # bs) =
     (if b = ETX then datagram # seek_stx bs else collect (datagram @ [b]) bs)"

definition datagrams_from_socket :: "bytes list \<Rightarrow> bytes list" where
  "datagrams_from_socket received = seek_stx (bytes_from_socket received)"

section \<open>The lidar class\<close>

text \<open>
  numpy arrays are objects on a heap, addressed by their position in it. Creating an
  array appends it; nothing in lidar.py writes into an existing array. A slice of an
  array is a view in numpy; it is modelled as a new object holding the slice's elements.
\<close>

type_synonym ref = nat
type_synonym heap = "real list list"

definition np_array :: "heap \<Rightarrow> real list \<Rightarrow> ref \<times> heap" where
  "np_array h xs = (length h, h @ [xs])"

text \<open>\<open>np.where(cond(a), a, y)\<close> for an elementwise condition on the array itself.\<close>

definition np_where :: "(real \<Rightarrow> bool) \<Rightarrow> heap \<Rightarrow> ref \<Rightarrow> real \<Rightarrow> ref \<times> heap" where
  "np_where cond h a y = np_array h (map (\<lambda>x. if cond x then x else y) (h ! a))"

text \<open>
  The attributes set by \<open>__init__\<close>, except \<open>angles\<close>, which no method reads.
\<close>

record lidar =
  IP :: string
  condition :: bool
  stop :: bool
  ds :: "ref option"
  min_distance :: real
  max_distance :: real
  datagram_size :: int
  sensor_angle :: int

definition SENSOR_IP :: string where
  "SENSOR_IP = ''192.168.0.1''"

definition lidar_init :: "string \<Rightarrow> lidar" where
  "lidar_init ip =
     \<lparr>IP = ip, condition = False, stop = False, ds = None,
      min_distance = 1 / 10, max_distance = 3, datagram_size = 811, sensor_angle = 270\<rparr>"

definition get :: "lidar \<Rightarrow> ref option" where
  "get self = ds self"

definition kill :: "lidar \<Rightarrow> lidar" where
  "kill self = self\<lparr>condition := False, stop := True\<rparr>"

definition clean_datagram_by_distance :: "lidar \<Rightarrow> heap \<Rightarrow> ref \<Rightarrow> ref \<times> heap" where
  "clean_datagram_by_distance self h a =
     (let (a1, h1) = np_where (\<lambda>x. x > min_distance self) h a (- 1);
          (a2, h2) = np_where (\<lambda>x. x < max_distance self) h1 a1 (- 1)
      in (a2, h2))"

text \<open>
  Line 175 turns a float into an int, so there the rounding of every float operation
  decides the result, and it is modelled: the result of an operation is its exact value
  rounded to the nearest double, ties to the even one. \<open>ulp x\<close> is the distance between
  neighbouring doubles at \<open>x\<close>: 52 fraction bits below the leading bit, which is found by
  halving or doubling \<open>x\<close>, and \<open>2^-1074\<close> from the smallest normal number down.
\<close>

definition round_half_even :: "real \<Rightarrow> int" where
  "round_half_even y =
     (let f = \<lfloor>y\<rfloor>; d = y - of_int f
      in if d < 1 / 2 then f else if 1 / 2 < d then f + 1 else if even f then f else f + 1)"

fun halvings :: "nat \<Rightarrow> real \<Rightarrow> nat" where
  "halvings 0 x = 0"
| "halvings (Suc k) x = (if x < 2 then 0 else Suc (halvings k (x / 2)))"

fun doublings :: "nat \<Rightarrow> real \<Rightarrow> nat" where
  "doublings 0 x = 0"
| "doublings (Suc k) x = (if 1 \<le> x then 0 else Suc (doublings k (2 * x)))"

definition ulp :: "real \<Rightarrow> real" where
  "ulp x = (if 1 \<le> x then 2 ^ halvings 1023 x / 2 ^ 52
            else 1 / (2 ^ doublings 1022 x * 2 ^ 52))"

definition round_double :: "real \<Rightarrow> real" where
  "round_double x =
     (if x < 0 then - (ulp (- x) * of_int (round_half_even (- x / ulp (- x))))
      else ulp x * of_int (round_half_even (x / ulp x)))"

text \<open>
  The float that an operation with the exact value \<open>x\<close> yields. Beyond the range of a
  double, \<open>int / int\<close> raises OverflowError; a product of floats is \<open>inf\<close> there, and
  \<open>int(inf)\<close> raises OverflowError as well.
\<close>

definition float_result :: "real \<Rightarrow> error + real" where
  "float_result x =
     (if real_of_int float_overflow_bound \<le> \<bar>x\<bar> then Inl OverflowError
      else Inr (round_double x))"

text \<open>\<open>int(x)\<close> on a float truncates towards zero.\<close>

definition int_of_float :: "real \<Rightarrow> int" where
  "int_of_float x = (if 0 \<le> x then \<lfloor>x\<rfloor> else \<lceil>x\<rceil>)"

text \<open>
  The value of \<open>cleanArraySize\<close> (line 175): the quotient of the two attributes, then
  \<open>viewAngle / 2\<close>, then their product, each a float, then \<open>int\<close>. \<open>viewAngle\<close> is the value
  of the int or float that is passed.
\<close>

definition clean_array_size :: "lidar \<Rightarrow> real \<Rightarrow> error + int" where
  "clean_array_size self viewAngle =
     (if sensor_angle self = 0 then Inl ZeroDivisionError
      else
        err_bind (float_result (real_of_int (datagram_size self) / real_of_int (sensor_angle self)))
          (\<lambda>ratio.
        err_bind (float_result (viewAngle / 2)) (\<lambda>half.
        err_bind (float_result (ratio * half)) (\<lambda>size.
          Inr (int_of_float size)))))"

definition clean_datagram_by_angle :: "lidar \<Rightarrow> heap \<Rightarrow> ref \<Rightarrow> real \<Rightarrow> error + ref \<times> heap" where
  "clean_datagram_by_angle self h a viewAngle =
     err_bind (clean_array_size self viewAngle) (\<lambda>cleanArraySize.
       let midpoint = int (length (h ! a)) div 2;
           start = midpoint - cleanArraySize div 2;
           start = (if cleanArraySize mod 2 = 0 then start - 1 else start);
           end = start + cleanArraySize
       in Inr (np_array h (py_slice (h ! a) start end)))"

text \<open>
  Binding the arguments of a call of \<open>clean_datagram_by_angle(self, ds, viewAngle = 30)\<close>:
  \<open>ds\<close> has no default, so a call that leaves it out raises TypeError before the body
  runs; a missing \<open>viewAngle\<close> is 30.
\<close>

definition call_clean_datagram_by_angle ::
  "lidar \<Rightarrow> heap \<Rightarrow> ref option \<Rightarrow> real option \<Rightarrow> error + ref \<times> heap" where
  "call_clean_datagram_by_angle self h ds_arg viewAngle_arg =
     (case ds_arg of
        None \<Rightarrow> Inl TypeError
      | Some a \<Rightarrow>
          clean_datagram_by_angle self h a (case viewAngle_arg of None \<Rightarrow> 30 | Some v \<Rightarrow> v))"

text \<open>
  The loop of \<open>run\<close> on the datagrams that the generator yields, for as long as it yields
  any. \<open>self.stop\<close> is read at the top of each iteration; another thread sets it with
  \<open>kill\<close>. An exception leaves the loop and ends the thread. The call of line 212 passes
  \<open>viewAngle=180\<close> only. With no datagram left the loop waits in \<open>next\<close>. The warm-up
  sleep and the print are not modelled.
\<close>

datatype outcome = Stopped | Waiting | Raised error

fun run :: "lidar \<times> heap \<Rightarrow> bytes list \<Rightarrow> outcome \<times> lidar \<times> heap" where
  "run (self, h) [] = (if stop self then (Stopped, self, h) else (Waiting, self, h))"
| "run (self, h) (datagram # rest) =
     (if stop self then (Stopped, self, h)
      else
        case decode_datagram datagram of
          Inl e \<Rightarrow> (Raised e, self, h)
        | Inr None \<Rightarrow> run (self, h) rest
        | Inr (Some decoded) \<Rightarrow>
            let (a0, h0) = np_array h (Data decoded);
                (a1, h1) = clean_datagram_by_distance self h0 a0
            in (case call_clean_datagram_by_angle self h1 None (Some 180) of
                  Inl e \<Rightarrow> (Raised e, self, h1)
                | Inr (a2, h2) \<Rightarrow> run (self\<lparr>ds := Some a2\<rparr>, h2) rest))"

section \<open>Notions of the specification\<close>

text \<open>
  The specification speaks of a token grid that is long enough and whose numeric tokens all
  parse, of the validity gate, and of a fully populated record. These definitions say what
  that means on the list of tokens; they are compared with \<open>decode_datagram\<close> below.
  \<open>projr\<close> reads the value of a result that is no error.
\<close>

definition numeric_fields :: "nat list" where
  "numeric_fields = [2, 3, 5, 6, 7, 9, 10, 24, 25]"

definition text_fields :: "nat list" where
  "text_fields = [0, 1, 4]"

definition sample_tokens :: "bytes list \<Rightarrow> bytes list" where
  "sample_tokens items = py_slice items 26 (26 + projr (parse_number (items ! 25)))"

definition well_formed_grid :: "bytes list \<Rightarrow> bool" where
  "well_formed_grid items =
     (26 \<le> length items
      \<and> list_all (\<lambda>i. \<not> isl (parse_number (items ! i))) numeric_fields
      \<and> list_all (\<lambda>x. \<not> isl (parse_number x)) (sample_tokens items))"

definition decodable :: "bytes list \<Rightarrow> bool" where
  "decodable items =
     (well_formed_grid items
      \<and> list_all (\<lambda>i. \<not> isl (decode_ascii (items ! i))) text_fields
      \<and> list_all (\<lambda>x. \<not> isl (sample x)) (sample_tokens items))"

definition gate_fails :: "bytes list \<Rightarrow> bool" where
  "gate_fails items =
     (items ! 0 \<noteq> ''sSN'' \<or> items ! 1 \<noteq> ''LMDscandata''
      \<or> projr (parse_number (items ! 5)) \<noteq> 0 \<or> projr (parse_number (items ! 6)) \<noteq> 0)"

definition populated :: "bytes list \<Rightarrow> header" where
  "populated items =
     \<lparr>TypeOfCommand = items ! 0, Command = items ! 1,
      VersionNumber = projr (parse_number (items ! 2)),
      DeviceNumber = projr (parse_number (items ! 3)),
      SerialNumber = items ! 4,
      DeviceStatus1 = projr (parse_number (items ! 5)),
      DeviceStatus2 = projr (parse_number (items ! 6)),
      TelegramCounter = projr (parse_number (items ! 7)),
      TimeSinceStartup = projr (parse_number (items ! 9)),
      TimeOfTransmission = projr (parse_number (items ! 10)),
      AngularStepWidth = projr (parse_number (items ! 24)),
      NumberOfData = projr (parse_number (items ! 25)),
      Data = map (\<lambda>x. real_of_int (projr (parse_number x)) / 1000) (sample_tokens items)\<rparr>"

text \<open>The dispatch rule of the specification: a leading sign byte selects base 10.\<close>

definition leading_sign :: "bytes \<Rightarrow> bool" where
  "leading_sign nbr_str = (case nbr_str of [] \<Rightarrow> False | c # _ \<Rightarrow> c = CHR ''+'' \<or> c = CHR ''-'')"

definition spec_parse_number :: "bytes \<Rightarrow> error + int" where
  "spec_parse_number nbr_str = (if leading_sign nbr_str then py_int 10 nbr_str else py_int 16 nbr_str)"

definition is_sign :: "char \<Rightarrow> bool" where
  "is_sign c = (c = CHR ''+'' \<or> c = CHR ''-'')"



text \<open>A scan telegram with three samples, and one of another command type.\<close>

definition telegram_3 :: bytes where
  "telegram_3 = ''sSN LMDscandata 1 1 B96518 0 0 4A7 4AA 85BD3F 85C0F5 0 0 7 0 0 5DC A2 0 1 DIST1 3F800000 00000000 FFF92230 D05 3 1A 2B 3C''"

definition header_3 :: header where
  "header_3 =
     \<lparr>TypeOfCommand = ''sSN'', Command = ''LMDscandata'', VersionNumber = 1,
      DeviceNumber = 1, SerialNumber = ''B96518'', DeviceStatus1 = 0, DeviceStatus2 = 0,
      TelegramCounter = 1191, TimeSinceStartup = 8764735, TimeOfTransmission = 8765685,
      AngularStepWidth = 3333, NumberOfData = 3, Data = [26 / 1000, 43 / 1000, 60 / 1000]\<rparr>"

definition telegram_other :: bytes where
  "telegram_other = ''sRA LMDscandata 1 1 B96518 0 0 4A7 4AA 85BD3F 85C0F5 0 0 7 0 0 5DC A2 0 1 DIST1 3F800000 00000000 FFF92230 D05 0''"

section \<open>Results and slices\<close>

lemma err_bind_Inr_iff: "err_bind m f = Inr y \<longleftrightarrow> (\<exists>v. m = Inr v \<and> f v = Inr y)"
  by (cases m) (simp_all add: err_bind_def)

lemma not_isl_iff: "\<not> isl m \<longleftrightarrow> (\<exists>v. m = Inr v)"
  by (cases m) simp_all

lemma err_map_Inr_iff:
  "err_map f xs = Inr ys \<longleftrightarrow> list_all (\<lambda>x. \<not> isl (f x)) xs \<and> ys = map (\<lambda>x. projr (f x)) xs"
  by (induction xs arbitrary: ys) (auto simp: err_bind_Inr_iff not_isl_iff)

lemma sample_ok_parse_ok: "\<not> isl (sample x) \<Longrightarrow> \<not> isl (parse_number x)"
  by (cases "parse_number x") (auto simp: sample_def err_bind_def)

lemma parse_item_Inr_iff:
  "parse_item items i = Inr n \<longleftrightarrow> i < length items \<and> \<not> isl (parse_number (items ! i)) \<and> n = projr (parse_number (items ! i))"
  by (cases "parse_number (items ! i)") (auto simp: parse_item_def getitem_def err_bind_def)

lemma decode_item_Inr_iff:
  "decode_item items i = Inr s \<longleftrightarrow> i < length items \<and> \<not> isl (decode_ascii (items ! i)) \<and> s = items ! i"
  by (auto simp: decode_item_def getitem_def err_bind_def decode_ascii_def)

lemma projr_sample:
  "\<not> isl (sample x) \<Longrightarrow> projr (sample x) = real_of_int (projr (parse_number x)) / 1000"
  by (cases "parse_number x") (auto simp: sample_def err_bind_def truediv_def split: if_splits)

lemma samples_Inr_iff:
  "err_map sample xs = Inr ys \<longleftrightarrow>
     list_all (\<lambda>x. \<not> isl (sample x)) xs
     \<and> ys = map (\<lambda>x. real_of_int (projr (parse_number x)) / 1000) xs"
proof -
  have "list_all (\<lambda>x. \<not> isl (sample x)) xs \<Longrightarrow>
        map (\<lambda>x. projr (sample x)) xs
          = map (\<lambda>x. real_of_int (projr (parse_number x)) / 1000) xs"
    by (induction xs) (simp_all add: projr_sample)
  then show ?thesis unfolding err_map_Inr_iff by auto
qed

lemma err_bind_Inr: "err_bind (Inr v) f = f v"
  by (simp add: err_bind_def)

lemma parse_item_ok:
  "i < length items \<Longrightarrow> \<not> isl (parse_number (items ! i)) \<Longrightarrow>
   parse_item items i = Inr (projr (parse_number (items ! i)))"
  by (cases "parse_number (items ! i)") (simp_all add: parse_item_def getitem_def err_bind_def)

lemma decode_item_ok:
  "i < length items \<Longrightarrow> \<not> isl (decode_ascii (items ! i)) \<Longrightarrow>
   decode_item items i = Inr (items ! i)"
  by (simp add: decode_item_def getitem_def err_bind_def decode_ascii_def split: if_splits)

lemma samples_ok:
  "list_all (\<lambda>x. \<not> isl (sample x)) xs \<Longrightarrow>
   err_map sample xs = Inr (map (\<lambda>x. real_of_int (projr (parse_number x)) / 1000) xs)"
  by (simp add: samples_Inr_iff)


lemma err_bindE:
  assumes "err_bind m f = Inr y"
  obtains v where "m = Inr v" and "f v = Inr y"
  using assms by (cases m) (simp_all add: err_bind_def)

section \<open>When decode_datagram returns\<close>

lemma decodable_decode:
  assumes "decodable (bytes_split (CHR '' '') d)"
  shows "decode_datagram d =
     Inr (if gate_fails (bytes_split (CHR '' '') d) then None
          else Some (populated (bytes_split (CHR '' '') d)))"
proof -
  let ?items = "bytes_split (CHR '' '') d"
  from assms have len: "26 \<le> length ?items"
    and num: "\<And>i. i \<in> set numeric_fields \<Longrightarrow> \<not> isl (parse_number (?items ! i))"
    and tx: "\<And>i. i \<in> set text_fields \<Longrightarrow> \<not> isl (decode_ascii (?items ! i))"
    and smp: "list_all (\<lambda>x. \<not> isl (sample x)) (sample_tokens ?items)"
    by (simp_all add: decodable_def well_formed_grid_def list_all_iff)
  have p: "\<And>i. i \<in> set numeric_fields \<Longrightarrow>
             parse_item ?items i = Inr (projr (parse_number (?items ! i)))"
  proof -
    fix i assume i: "i \<in> set numeric_fields"
    then have "i < length ?items" using len by (auto simp: numeric_fields_def)
    then show "parse_item ?items i = Inr (projr (parse_number (?items ! i)))"
      using num [OF i] by (rule parse_item_ok)
  qed
  have t: "\<And>i. i \<in> set text_fields \<Longrightarrow> decode_item ?items i = Inr (?items ! i)"
  proof -
    fix i assume i: "i \<in> set text_fields"
    then have "i < length ?items" using len by (auto simp: text_fields_def)
    then show "decode_item ?items i = Inr (?items ! i)"
      using tx [OF i] by (rule decode_item_ok)
  qed
  have s: "err_map sample (py_slice ?items 26 (26 + projr (parse_number (?items ! 25))))
           = Inr (map (\<lambda>x. real_of_int (projr (parse_number x)) / 1000) (sample_tokens ?items))"
    using samples_ok [OF smp] by (simp add: sample_tokens_def)
  have t0: "decode_item ?items 0 = Inr (?items ! 0)" by (rule t) (simp add: text_fields_def)
  have t1: "decode_item ?items 1 = Inr (?items ! 1)" by (rule t) (simp add: text_fields_def)
  have t4: "decode_item ?items 4 = Inr (?items ! 4)" by (rule t) (simp add: text_fields_def)
  have p2: "parse_item ?items 2 = Inr (projr (parse_number (?items ! 2)))"
    by (rule p) (simp add: numeric_fields_def)
  have p3: "parse_item ?items 3 = Inr (projr (parse_number (?items ! 3)))"
    by (rule p) (simp add: numeric_fields_def)
  have p5: "parse_item ?items 5 = Inr (projr (parse_number (?items ! 5)))"
    by (rule p) (simp add: numeric_fields_def)
  have p6: "parse_item ?items 6 = Inr (projr (parse_number (?items ! 6)))"
    by (rule p) (simp add: numeric_fields_def)
  have p7: "parse_item ?items 7 = Inr (projr (parse_number (?items ! 7)))"
    by (rule p) (simp add: numeric_fields_def)
  have p9: "parse_item ?items 9 = Inr (projr (parse_number (?items ! 9)))"
    by (rule p) (simp add: numeric_fields_def)
  have p10: "parse_item ?items 10 = Inr (projr (parse_number (?items ! 10)))"
    by (rule p) (simp add: numeric_fields_def)
  have p24: "parse_item ?items 24 = Inr (projr (parse_number (?items ! 24)))"
    by (rule p) (simp add: numeric_fields_def)
  have p25: "parse_item ?items 25 = Inr (projr (parse_number (?items ! 25)))"
    by (rule p) (simp add: numeric_fields_def)
  show ?thesis
    unfolding decode_datagram_def Let_def t0 t1 t4 p2 p3 p5 p6 p7 p9 p10 p24 p25 s err_bind_Inr
    by (simp add: gate_fails_def populated_def)
qed



lemma decode_decodable:
  "decode_datagram d = Inr res \<Longrightarrow> decodable (bytes_split (CHR '' '') d)"
  unfolding decode_datagram_def Let_def
  apply (elim err_bindE)
  apply (simp add: parse_item_Inr_iff decode_item_Inr_iff samples_Inr_iff decodable_def
      well_formed_grid_def numeric_fields_def text_fields_def sample_tokens_def list_all_iff
      sample_ok_parse_ok)
  done


lemma decode_datagram_Inr_iff:
  "decode_datagram d = Inr res \<longleftrightarrow>
     decodable (bytes_split (CHR '' '') d)
     \<and> res = (if gate_fails (bytes_split (CHR '' '') d) then None
              else Some (populated (bytes_split (CHR '' '') d)))"
  using decodable_decode [of d] decode_decodable [of d res] by auto

lemma decode_Some_populated:
  "decode_datagram d = Inr (Some r) \<Longrightarrow>
   decodable (bytes_split (CHR '' '') d) \<and> r = populated (bytes_split (CHR '' '') d)"
  by (simp add: decode_datagram_Inr_iff split: if_splits)

lemma not_well_formed_decode:
  "\<not> well_formed_grid (bytes_split (CHR '' '') d) \<Longrightarrow> \<exists>e. decode_datagram d = Inl e"
proof -
  assume a: "\<not> well_formed_grid (bytes_split (CHR '' '') d)"
  show ?thesis
  proof (cases "decode_datagram d")
    case (Inl e) then show ?thesis by blast
  next
    case (Inr res)
    then have "decodable (bytes_split (CHR '' '') d)" by (rule decode_decodable)
    with a show ?thesis by (simp add: decodable_def)
  qed
qed

lemma length_py_slice_from:
  "a \<le> length xs \<Longrightarrow> 0 \<le> n \<Longrightarrow>
   length (py_slice xs (int a) (int a + n)) = min (nat n) (length xs - a)"
  by (auto simp: py_slice_def slice_index_def Let_def min_def)

lemma slice_index_nat: "slice_index (int a) n = min a n"
  by (simp add: slice_index_def)

lemma nth_py_slice_from:
  assumes "i < length (py_slice xs (int a) b)"
  shows "py_slice xs (int a) b ! i = xs ! (a + i) \<and> a + i < length xs"
proof -
  let ?B = "slice_index b (length xs)"
  have eq: "py_slice xs (int a) b = take (?B - min a (length xs)) (drop (min a (length xs)) xs)"
    by (simp add: py_slice_def slice_index_nat Let_def)
  from assms have i: "i < length xs - min a (length xs)" and i': "i < ?B - min a (length xs)"
    unfolding eq by simp_all
  from i have a: "min a (length xs) = a" by (simp add: min_def split: if_splits)
  from i a have "a + i < length xs" by simp
  moreover have "py_slice xs (int a) b ! i = xs ! (a + i)"
    unfolding eq a using i' a \<open>a + i < length xs\<close> by simp
  ultimately show ?thesis by simp
qed





section \<open>Rounding to a double\<close>















section \<open>The size and place of the window\<close>








section \<open>Parsing numbers\<close>

lemma sign_not_digit: "is_sign c \<Longrightarrow> b \<le> 37 \<Longrightarrow> \<not> digit_char b c"
  by (auto simp: is_sign_def digit_char_def digit_value_def)

lemma sign_not_space: "is_sign c \<Longrightarrow> \<not> Py_ISSPACE c"
  by (auto simp: is_sign_def Py_ISSPACE_def)

lemma sign_in_skip_prefix: "is_sign c \<Longrightarrow> c \<in> set s \<Longrightarrow> c \<in> set (skip_prefix b s)"
  by (auto simp: skip_prefix_def is_sign_def split: list.splits)

lemma in_dropWhile: "c \<in> set s \<Longrightarrow> \<not> P c \<Longrightarrow> c \<in> set (dropWhile P s)"
  by (induction s) auto

lemma py_int_sign_inside:
  assumes "is_sign c" and "c \<in> set (x # r)" and "\<not> is_sign x" and "\<not> Py_ISSPACE x" and "b \<le> 37"
  shows "py_int b (x # r) = Inl ValueError"
proof -
  have d: "dropWhile Py_ISSPACE (x # r) = x # r" using assms(4) by simp
  have t: "take_sign (x # r) = (1, x # r)" using assms(3) by (simp add: take_sign_def is_sign_def)
  have "c \<in> set (skip_prefix b (x # r))" using assms(1,2) by (rule sign_in_skip_prefix)
  then have "c \<in> set (dropWhile (digit_char b) (skip_prefix b (x # r)))"
    using sign_not_digit [OF assms(1,5)] by (rule in_dropWhile)
  then have "\<not> list_all Py_ISSPACE (dropWhile (digit_char b) (skip_prefix b (x # r)))"
    using sign_not_space [OF assms(1)] by (auto simp: list_all_iff)
  then show ?thesis unfolding py_int_def d t by (simp add: Let_def)
qed

lemma parse_number_leading:
  assumes "t = [] \<or> \<not> Py_ISSPACE (hd t)"
  shows "parse_number t = spec_parse_number t"
proof (cases t)
  case Nil
  then show ?thesis by (simp add: parse_number_def spec_parse_number_def leading_sign_def)
next
  case (Cons x r)
  with assms have sp: "\<not> Py_ISSPACE x" by simp
  show ?thesis
  proof (cases "is_sign x")
    case True
    then show ?thesis
      unfolding Cons parse_number_def spec_parse_number_def leading_sign_def
      by (auto simp: is_sign_def)
  next
    case False
    show ?thesis
    proof (cases "CHR ''+'' \<in> set t \<or> CHR ''-'' \<in> set t")
      case True
      then obtain c where c: "is_sign c" "c \<in> set (x # r)"
        unfolding Cons is_sign_def by blast
      have "py_int 10 (x # r) = Inl ValueError" "py_int 16 (x # r) = Inl ValueError"
        using c False sp by (auto intro: py_int_sign_inside)
      then show ?thesis
        unfolding Cons parse_number_def spec_parse_number_def by simp
    next
      case no: False
      with False show ?thesis
        unfolding Cons parse_number_def spec_parse_number_def leading_sign_def
        by (simp add: is_sign_def)
    qed
  qed
qed

lemma foldl_digits_nonneg:
  "0 \<le> a \<Longrightarrow> 0 \<le> foldl (\<lambda>a c. a * int b + int (digit_value c)) a xs"
  by (induction xs arbitrary: a) simp_all

lemma digits_value_nonneg: "0 \<le> digits_value b xs"
  unfolding digits_value_def by (rule foldl_digits_nonneg) simp

lemma take_sign_cases:
  "take_sign s = (sg, s') \<Longrightarrow> sg = 1 \<or> (sg = - 1 \<and> CHR ''-'' \<in> set s)"
  by (auto simp: take_sign_def split: list.splits if_splits)

lemma py_int_nonneg:
  assumes "py_int b t = Inr n" and "CHR ''-'' \<notin> set t"
  shows "0 \<le> n"
proof -
  obtain sg s' where ts: "take_sign (dropWhile Py_ISSPACE t) = (sg, s')" by (cases "take_sign (dropWhile Py_ISSPACE t)")
  have "set (dropWhile Py_ISSPACE t) \<subseteq> set t" by (rule set_dropWhileD [THEN subsetI]) 
  with take_sign_cases [OF ts] assms(2) have sg: "sg = 1" by auto
  from assms(1) have "n = sg * digits_value b (takeWhile (digit_char b) (skip_prefix b s'))"
    unfolding py_int_def ts by (simp add: Let_def split: if_splits)
  then show ?thesis using sg digits_value_nonneg by simp
qed


section \<open>The distance filter\<close>

lemma clean_datagram_by_distance_eq:
  "clean_datagram_by_distance self h a =
     (Suc (length h),
      h @ [map (\<lambda>x. if x > min_distance self then x else - 1) (h ! a),
           map (\<lambda>x. if min_distance self < x \<and> x < max_distance self then x else - 1) (h ! a)])"
  if "a < length h"
proof -
  have "map (\<lambda>x. if x < max_distance self then x else - 1)
          (map (\<lambda>x. if x > min_distance self then x else - 1) (h ! a))
        = map (\<lambda>x. if min_distance self < x \<and> x < max_distance self then x else - 1) (h ! a)"
    by (induction "h ! a") auto
  then show ?thesis
    by (simp add: clean_datagram_by_distance_def np_where_def np_array_def nth_append)
qed


section \<open>The example telegrams\<close>

lemma telegram_3_decodes: "decode_datagram telegram_3 = Inr (Some header_3)"
  by code_simp

section \<open>The decoder\<close>

text \<open>
  C7, as stated: \<open>parse_number\<close> looks for a leading sign byte; with one the token is read
  as a signed base-10 integer, without one as an unsigned base-16 integer. The test of
  line 78 is whether a sign byte occurs anywhere in the token. The two differ when
  whitespace, which \<open>int\<close> strips, comes before the sign: a tab followed by \<open>+10\<close> has no
  leading sign, and is read in base 10.
\<close>

theorem C7_sign_after_whitespace:
  "\<not> leading_sign [CHR 0x09, CHR ''+'', CHR ''1'', CHR ''0'']
   \<and> parse_number [CHR 0x09, CHR ''+'', CHR ''1'', CHR ''0''] = Inr 10
   \<and> spec_parse_number [CHR 0x09, CHR ''+'', CHR ''1'', CHR ''0''] = Inr 16"
  by code_simp

text \<open>
  C7, amended: for every numeric token, \<open>parse_number\<close> looks for a \<open>+\<close> or \<open>-\<close> byte
  anywhere in the token: with one the token is read as a signed base-10 integer,
  without one as an unsigned base-16 integer, which is never negative. For every token
  that does not start with whitespace this is the same as looking at the leading byte.
  In particular \<open>parse_number(b"+42") == 42\<close> and \<open>parse_number(b"2A") == 42\<close>.
\<close>

theorem C7_parse_number:
  "(CHR ''+'' \<in> set t \<or> CHR ''-'' \<in> set t \<longrightarrow> parse_number t = py_int 10 t)
   \<and> (CHR ''+'' \<notin> set t \<and> CHR ''-'' \<notin> set t \<longrightarrow>
        parse_number t = py_int 16 t \<and> (\<forall>n. parse_number t = Inr n \<longrightarrow> 0 \<le> n))
   \<and> (t = [] \<or> \<not> Py_ISSPACE (hd t) \<longrightarrow> parse_number t = spec_parse_number t)
   \<and> parse_number ''+42'' = Inr 42 \<and> parse_number ''2A'' = Inr 42"
proof -
  have 1: "CHR ''+'' \<in> set t \<or> CHR ''-'' \<in> set t \<longrightarrow> parse_number t = py_int 10 t"
    by (simp add: parse_number_def)
  have 2: "CHR ''+'' \<notin> set t \<and> CHR ''-'' \<notin> set t \<longrightarrow>
        parse_number t = py_int 16 t \<and> (\<forall>n. parse_number t = Inr n \<longrightarrow> 0 \<le> n)"
    using py_int_nonneg [of 16 t] by (simp add: parse_number_def)
  have 3: "t = [] \<or> \<not> Py_ISSPACE (hd t) \<longrightarrow> parse_number t = spec_parse_number t"
    using parse_number_leading by blast
  have 4: "parse_number ''+42'' = Inr 42" by code_simp
  have 5: "parse_number ''2A'' = Inr 42" by code_simp
  from 1 2 3 4 5 show ?thesis by blast
qed

theorem C7_parse_number_witness:
  "(CHR ''-'' \<in> set ''-7'' \<and> parse_number ''-7'' = py_int 10 ''-7'' \<and> py_int 10 ''-7'' = Inr (- 7)
    \<and> \<not> Py_ISSPACE (hd ''-7'') \<and> parse_number ''-7'' = spec_parse_number ''-7'')
   \<and> (CHR ''+'' \<notin> set ''2A'' \<and> CHR ''-'' \<notin> set ''2A'' \<and> parse_number ''2A'' = py_int 16 ''2A''
      \<and> parse_number ''2A'' = Inr 42 \<and> (0::int) \<le> 42
      \<and> \<not> Py_ISSPACE (hd ''2A'') \<and> parse_number ''2A'' = spec_parse_number ''2A'')"
proof -
  have a: "CHR ''-'' \<in> set ''-7''" "\<not> Py_ISSPACE (hd ''-7'')" "py_int 10 ''-7'' = Inr (- 7)"
    by code_simp+
  have b: "CHR ''+'' \<notin> set ''2A'' \<and> CHR ''-'' \<notin> set ''2A''" "\<not> Py_ISSPACE (hd ''2A'')"
    "parse_number ''2A'' = Inr 42"
    by code_simp+
  note i1 = C7_parse_number [of "''-7''"] and i2 = C7_parse_number [of "''2A''"]
  have x1: "parse_number ''-7'' = py_int 10 ''-7''" using i1 a(1) by blast
  have x2: "parse_number ''-7'' = spec_parse_number ''-7''" using i1 a(2) by blast
  have y1: "parse_number ''2A'' = py_int 16 ''2A''" using i2 b(1) by blast
  have y2: "parse_number ''2A'' = spec_parse_number ''2A''" using i2 b(2) by blast
  have z: "(0::int) \<le> 42" by simp
  show ?thesis using a b x1 x2 y1 y2 z by blast
qed

text \<open>
  C2, as stated: every record returned by \<open>decode_datagram\<close> has as many samples as token 25
  declares, and a telegram that declares more samples than it carries makes the decoder
  fail. The samples are read with the slice \<open>items[26:26+N]\<close>, which stops at the end of
  the list: a telegram declaring 3 samples and carrying 2 is decoded to a record with
  \<open>NumberOfData = 3\<close> and two samples.
\<close>

theorem C2_short_telegram_decodes:
  "decode_datagram ''sSN LMDscandata 1 1 B96518 0 0 4A7 4AA 85BD3F 85C0F5 0 0 7 0 0 5DC A2 0 1 DIST1 3F800000 00000000 FFF92230 D05 3 1A 2B''
   = Inr (Some \<lparr>TypeOfCommand = ''sSN'', Command = ''LMDscandata'', VersionNumber = 1,
       DeviceNumber = 1, SerialNumber = ''B96518'', DeviceStatus1 = 0, DeviceStatus2 = 0,
       TelegramCounter = 1191, TimeSinceStartup = 8764735, TimeOfTransmission = 8765685,
       AngularStepWidth = 3333, NumberOfData = 3, Data = [26 / 1000, 43 / 1000]\<rparr>)"
  by code_simp

text \<open>
  C2, amended: every record returned by \<open>decode_datagram\<close> with a declared sample count
  \<open>N \<ge> 0\<close> has \<open>min N k\<close> samples, where \<open>k\<close> is the number of tokens after index 25. So the
  length is \<open>N\<close> when the telegram carries at least \<open>N\<close> sample tokens, and a telegram that
  carries fewer is decoded, without an error, to a record with the \<open>k\<close> samples it has.
\<close>

theorem C2_sample_count:
  assumes "decode_datagram d = Inr (Some r)" and "0 \<le> NumberOfData r"
  shows "length (Data r) = min (nat (NumberOfData r)) (length (bytes_split (CHR '' '') d) - 26)"
proof -
  let ?items = "bytes_split (CHR '' '') d"
  from assms(1) have d: "decodable ?items" and r: "r = populated ?items"
    using decode_Some_populated by auto
  from d have len: "26 \<le> length ?items" by (simp add: decodable_def well_formed_grid_def)
  have "length (Data r) = length (py_slice ?items (int 26) (int 26 + NumberOfData r))"
    by (simp add: r populated_def sample_tokens_def)
  also have "\<dots> = min (nat (NumberOfData r)) (length ?items - 26)"
    using len assms(2) by (rule length_py_slice_from)
  finally show ?thesis .
qed

theorem C2_sample_count_witness:
  "decode_datagram telegram_3 = Inr (Some header_3) \<and> 0 \<le> NumberOfData header_3
   \<and> length (Data header_3) = min (nat (NumberOfData header_3)) (length (bytes_split (CHR '' '') telegram_3) - 26)
   \<and> length (Data header_3) = 3"
proof -
  have n: "0 \<le> NumberOfData header_3" by (simp add: header_3_def)
  have l: "length (Data header_3) = 3" by (simp add: header_3_def)
  from C2_sample_count [OF telegram_3_decodes n] telegram_3_decodes n l show ?thesis by simp
qed

text \<open>
  C5, as stated: when the token grid is long enough and the numeric tokens all parse,
  \<open>decode_datagram\<close> returns None or a fully populated record. Two more things can go
  wrong: a text token (index 0, 1 or 4) with a byte above 0x7F raises UnicodeDecodeError,
  and a sample too large for a float raises OverflowError in the division by 1000.
\<close>

theorem C5_well_formed_but_raises:
  "well_formed_grid (bytes_split (CHR '' '') (''sSN LMDscandata 1 1 '' @ [CHR 0xFF] @ '' 0 0 4A7 4AA 85BD3F 85C0F5 0 0 7 0 0 5DC A2 0 1 DIST1 3F800000 00000000 FFF92230 D05 1 1A''))
   \<and> decode_datagram (''sSN LMDscandata 1 1 '' @ [CHR 0xFF] @ '' 0 0 4A7 4AA 85BD3F 85C0F5 0 0 7 0 0 5DC A2 0 1 DIST1 3F800000 00000000 FFF92230 D05 1 1A'')
       = Inl UnicodeDecodeError
   \<and> well_formed_grid (bytes_split (CHR '' '') (''sSN LMDscandata 1 1 B96518 0 0 4A7 4AA 85BD3F 85C0F5 0 0 7 0 0 5DC A2 0 1 DIST1 3F800000 00000000 FFF92230 D05 1 1'' @ replicate 259 (CHR ''0'')))
   \<and> decode_datagram (''sSN LMDscandata 1 1 B96518 0 0 4A7 4AA 85BD3F 85C0F5 0 0 7 0 0 5DC A2 0 1 DIST1 3F800000 00000000 FFF92230 D05 1 1'' @ replicate 259 (CHR ''0''))
       = Inl OverflowError"
  by code_simp

text \<open>
  C5, amended: for every frame whose token grid is long enough, whose numeric tokens all
  parse, whose text tokens (indices 0, 1 and 4) are ASCII and whose samples fit a float
  after the division by 1000, \<open>decode_datagram\<close> returns None if and only if the command
  type differs from \<open>sSN\<close>, or the command name differs from \<open>LMDscandata\<close>, or one of the two
  device-status fields is not zero; otherwise it returns the fully populated record.
\<close>

theorem C5_validity_gate:
  assumes "decodable (bytes_split (CHR '' '') d)"
  shows "(decode_datagram d = Inr None \<longleftrightarrow> gate_fails (bytes_split (CHR '' '') d))
    \<and> (\<not> gate_fails (bytes_split (CHR '' '') d) \<longrightarrow>
         decode_datagram d = Inr (Some (populated (bytes_split (CHR '' '') d))))"
  using decodable_decode [OF assms] by simp

theorem C5_validity_gate_witness:
  "decodable (bytes_split (CHR '' '') telegram_3)
   \<and> \<not> gate_fails (bytes_split (CHR '' '') telegram_3)
   \<and> decode_datagram telegram_3 \<noteq> Inr None
   \<and> decode_datagram telegram_3 = Inr (Some (populated (bytes_split (CHR '' '') telegram_3)))
   \<and> populated (bytes_split (CHR '' '') telegram_3) = header_3"
proof -
  have d: "decodable (bytes_split (CHR '' '') telegram_3)" by code_simp
  have g: "\<not> gate_fails (bytes_split (CHR '' '') telegram_3)" by code_simp
  from C5_validity_gate [OF d] d g telegram_3_decodes show ?thesis by simp
qed

text \<open>
  C6, as stated: each sample of a returned record is the unsigned base-16 value of its
  token, divided by 1000. The samples go through \<open>parse_number\<close> like every other field,
  so a sample token with a sign is read in base 10 and may be negative: the token
  \<open>-10\<close> gives \<open>-10/1000\<close>, where base 16 would read 16.
\<close>

theorem C6_signed_sample:
  "map_sum id (map_option Data) (decode_datagram ''sSN LMDscandata 1 1 B96518 0 0 4A7 4AA 85BD3F 85C0F5 0 0 7 0 0 5DC A2 0 1 DIST1 3F800000 00000000 FFF92230 D05 1 -10'')
     = Inr (Some [- 10 / 1000])
   \<and> py_int 16 ''10'' = Inr 16"
  by code_simp

text \<open>
  C6, amended: for every returned record, each sample is the integer that \<open>parse_number\<close>
  reads from its token (token \<open>26 + i\<close> for sample \<open>i\<close>), divided by 1000 in real division;
  for a token with no \<open>+\<close> and no \<open>-\<close> byte that integer is the unsigned base-16 value of
  the token.
\<close>

theorem C6_sample_value:
  assumes "decode_datagram d = Inr (Some r)" and "i < length (Data r)"
  shows "26 + i < length (bytes_split (CHR '' '') d)
    \<and> (\<exists>n. parse_number (bytes_split (CHR '' '') d ! (26 + i)) = Inr n
          \<and> Data r ! i = real_of_int n / 1000
          \<and> (CHR ''+'' \<notin> set (bytes_split (CHR '' '') d ! (26 + i))
               \<and> CHR ''-'' \<notin> set (bytes_split (CHR '' '') d ! (26 + i))
             \<longrightarrow> py_int 16 (bytes_split (CHR '' '') d ! (26 + i)) = Inr n \<and> 0 \<le> n))"
proof -
  let ?items = "bytes_split (CHR '' '') d"
  let ?tok = "?items ! (26 + i)"
  from assms(1) have d: "decodable ?items" and r: "r = populated ?items"
    using decode_Some_populated by auto
  have data: "Data r = map (\<lambda>x. real_of_int (projr (parse_number x)) / 1000) (sample_tokens ?items)"
    by (simp add: r populated_def)
  with assms(2) have i: "i < length (py_slice ?items (int 26) (26 + projr (parse_number (?items ! 25))))"
    by (simp add: sample_tokens_def)
  from nth_py_slice_from [OF i] have tok: "sample_tokens ?items ! i = ?tok"
    and len: "26 + i < length ?items"
    by (simp_all add: sample_tokens_def)
  from d have "list_all (\<lambda>x. \<not> isl (parse_number x)) (sample_tokens ?items)"
    by (simp add: decodable_def well_formed_grid_def)
  with i have "\<not> isl (parse_number (sample_tokens ?items ! i))"
    by (simp add: list_all_length sample_tokens_def)
  then obtain n where n: "parse_number ?tok = Inr n"
    unfolding tok not_isl_iff by blast
  have v: "Data r ! i = real_of_int n / 1000"
    using i by (simp add: data sample_tokens_def [symmetric] tok n) 
  have h: "CHR ''+'' \<notin> set ?tok \<and> CHR ''-'' \<notin> set ?tok \<longrightarrow> py_int 16 ?tok = Inr n \<and> 0 \<le> n"
  proof
    assume a: "CHR ''+'' \<notin> set ?tok \<and> CHR ''-'' \<notin> set ?tok"
    with n have p: "py_int 16 ?tok = Inr n" by (simp add: parse_number_def)
    with a show "py_int 16 ?tok = Inr n \<and> 0 \<le> n" using py_int_nonneg by blast
  qed
  from len n v h show ?thesis by blast
qed

theorem C6_sample_value_witness:
  "decode_datagram telegram_3 = Inr (Some header_3) \<and> (1::nat) < length (Data header_3)
   \<and> bytes_split (CHR '' '') telegram_3 ! (26 + 1) = ''2B''
   \<and> parse_number ''2B'' = Inr 43 \<and> py_int 16 ''2B'' = Inr 43
   \<and> Data header_3 ! 1 = real_of_int 43 / 1000
   \<and> (\<exists>n. parse_number (bytes_split (CHR '' '') telegram_3 ! (26 + 1)) = Inr n
          \<and> Data header_3 ! 1 = real_of_int n / 1000)"
proof -
  have l: "(1::nat) < length (Data header_3)" by (simp add: header_3_def)
  have t: "bytes_split (CHR '' '') telegram_3 ! (26 + 1) = ''2B''" by code_simp
  have p: "parse_number ''2B'' = Inr 43" "py_int 16 ''2B'' = Inr 43" by code_simp+
  have v: "Data header_3 ! 1 = real_of_int 43 / 1000" by (simp add: header_3_def)
  from C6_sample_value [OF telegram_3_decodes l] telegram_3_decodes l t p v
  show ?thesis by auto
qed

section \<open>The frame extractor\<close>

lemma seek_stx_no_etx: "f \<in> set (seek_stx bs) \<Longrightarrow> ETX \<notin> set f"
  and collect_no_etx: "f \<in> set (collect acc bs) \<Longrightarrow> ETX \<notin> set acc \<Longrightarrow> ETX \<notin> set f"
  by (induction bs and acc bs rule: seek_stx_collect.induct) (auto split: if_splits)

text \<open>
  C3, as stated: no yielded datagram contains a 0x02 or a 0x03 byte. The second loop
  stores every byte that is not ETX, so a second STX before the ETX is part of the
  datagram: the 0x02 half fails on the stream \<open>02 'A' 02 'B' 03\<close>.
\<close>

theorem C3_stx_inside_datagram:
  "datagrams_from_socket [[CHR 0x02, CHR ''A'', CHR 0x02, CHR ''B'', CHR 0x03]]
     = [[CHR ''A'', CHR 0x02, CHR ''B'']]
   \<and> CHR 0x02 \<in> set [CHR ''A'', CHR 0x02, CHR ''B'']"
  by (simp add: datagrams_from_socket_def bytes_from_socket_def STX_def ETX_def)

text \<open>
  C3, amended: whatever the socket delivers, and however \<open>recv\<close> cuts it into pieces, no
  datagram yielded by \<open>datagrams_from_socket\<close> contains a 0x03 byte.
\<close>

theorem C3_no_etx_in_datagram:
  "f \<in> set (datagrams_from_socket received) \<Longrightarrow> ETX \<notin> set f"
  unfolding datagrams_from_socket_def by (rule seek_stx_no_etx)

theorem C3_no_etx_in_datagram_witness:
  "[CHR ''A'', CHR ''B''] \<in> set (datagrams_from_socket [[CHR 0x02, CHR ''A''], [CHR ''B'', CHR 0x03]])
   \<and> ETX \<notin> set [CHR ''A'', CHR ''B'']"
proof -
  have m: "[CHR ''A'', CHR ''B'']
             \<in> set (datagrams_from_socket [[CHR 0x02, CHR ''A''], [CHR ''B'', CHR 0x03]])"
    by (simp add: datagrams_from_socket_def bytes_from_socket_def STX_def ETX_def)
  from C3_no_etx_in_datagram [OF m] m show ?thesis by simp
qed

section \<open>The filters\<close>

text \<open>
  C8: for every sample array, \<open>clean_datagram_by_distance\<close> returns an array of the same
  length in which each value strictly between \<open>min_distance\<close> and \<open>max_distance\<close> is kept and
  every other value, the two bounds included, is replaced by \<open>-1\<close>; the input array, like
  every array that existed before the call, is left as it was. For the input
  \<open>[0.05, 0.5, 1.5, 5.0]\<close> with the bounds \<open>(0.1, 3.0)\<close> of \<open>__init__\<close> the output is
  \<open>[-1, 0.5, 1.5, -1]\<close>.
\<close>

theorem C8_distance_filter:
  assumes "a < length h"
    and "clean_datagram_by_distance self h a = (a', h')"
  shows "length (h' ! a') = length (h ! a)
    \<and> (\<forall>i < length (h ! a).
          h' ! a' ! i = (if min_distance self < h ! a ! i \<and> h ! a ! i < max_distance self
                         then h ! a ! i else - 1))
    \<and> (\<forall>b < length h. h' ! b = h ! b)
    \<and> (let (b, k) = clean_datagram_by_distance (lidar_init SENSOR_IP) [[0.05, 0.5, 1.5, 5.0]] 0
       in k ! b = [- 1, 0.5, 1.5, - 1] \<and> k ! 0 = [0.05, 0.5, 1.5, 5.0])"
proof -
  from assms have a': "a' = Suc (length h)"
    and h': "h' = h @ [map (\<lambda>x. if x > min_distance self then x else - 1) (h ! a),
           map (\<lambda>x. if min_distance self < x \<and> x < max_distance self then x else - 1) (h ! a)]"
    by (simp_all add: clean_datagram_by_distance_eq)
  have 1: "h' ! a' = map (\<lambda>x. if min_distance self < x \<and> x < max_distance self then x else - 1) (h ! a)"
    by (simp add: a' h' nth_append)
  have 2: "\<forall>b < length h. h' ! b = h ! b" by (simp add: h' nth_append)
  have 3: "(let (b, k) = clean_datagram_by_distance (lidar_init SENSOR_IP) [[0.05, 0.5, 1.5, 5.0]] 0
       in k ! b = [- 1, 0.5, 1.5, - 1] \<and> k ! 0 = [0.05, 0.5, 1.5, 5.0])"
    by (simp add: clean_datagram_by_distance_def np_where_def np_array_def lidar_init_def)
  show ?thesis using 1 2 3 by simp
qed

theorem C8_distance_filter_witness:
  "clean_datagram_by_distance (lidar_init SENSOR_IP) [[0.1, 3, 2.5]] 0
     = (2, [[0.1, 3, 2.5], [- 1, 3, 2.5], [- 1, - 1, 2.5]])
   \<and> length ([[0.1, 3, 2.5], [- 1, 3, 2.5], [- 1, - 1, 2.5 :: real]] ! 2) = 3
   \<and> [[0.1, 3, 2.5], [- 1, 3, 2.5], [- 1, - 1, 2.5 :: real]] ! 0 = [0.1, 3, 2.5]"
proof -
  have e: "clean_datagram_by_distance (lidar_init SENSOR_IP) [[0.1, 3, 2.5]] 0
     = (2, [[0.1, 3, 2.5], [- 1, 3, 2.5], [- 1, - 1, 2.5]])"
    by (simp add: clean_datagram_by_distance_def np_where_def np_array_def lidar_init_def)
  have l: "(0::nat) < length [[0.1, 3, 2.5 :: real]]" by simp
  from C8_distance_filter [OF l e] e show ?thesis by simp
qed




section \<open>The ingestion loop\<close>

lemma telegram_other_skipped: "decode_datagram telegram_other = Inr None"
  by code_simp

lemma lidar_init_running: "\<not> stop (lidar_init ip)"
  by (simp add: lidar_init_def)

text \<open>
  C1: for every frame that decodes to a valid record, \<open>run\<close> applies the distance filter,
  then the angle filter to the distance-cleaned array, and publishes the result in
  \<open>self.ds\<close>. The code does not: line 212 calls \<open>clean_datagram_by_angle\<close> with
  \<open>viewAngle=180\<close> and without the array, so on every such frame the call raises
  TypeError, the loop ends, and \<open>self.ds\<close> keeps the value it had.
\<close>

theorem C1_run_raises_TypeError:
  "\<not> stop self \<Longrightarrow> decode_datagram f = Inr (Some r) \<Longrightarrow>
   \<exists>h'. run (self, h) (f # rest) = (Raised TypeError, self, h')"
  by (simp add: call_clean_datagram_by_angle_def split: prod.splits)

theorem C1_run_raises_TypeError_witness:
  "\<not> stop (lidar_init SENSOR_IP) \<and> decode_datagram telegram_3 = Inr (Some header_3)
   \<and> (\<exists>h'. run (lidar_init SENSOR_IP, []) [telegram_3]
              = (Raised TypeError, lidar_init SENSOR_IP, h'))
   \<and> get (lidar_init SENSOR_IP) = None"
  using C1_run_raises_TypeError [OF lidar_init_running telegram_3_decodes, of SENSOR_IP "[]" "[]"]
    lidar_init_running [of SENSOR_IP] telegram_3_decodes
  by (simp add: get_def lidar_init_def)

text \<open>
  C4, as stated: a malformed telegram does not end the loop; the loop reports the error and
  goes on with the next frame. \<open>run\<close> has no handler: on a telegram of three tokens the
  IndexError of \<open>decode_datagram\<close> leaves the loop, and the scan telegram behind it is
  never decoded.
\<close>

theorem C4_malformed_ends_loop:
  "run (lidar_init SENSOR_IP, [])
     [''sSN LMDscandata 1'',
      ''sSN LMDscandata 1 1 B96518 0 0 4A7 4AA 85BD3F 85C0F5 0 0 7 0 0 5DC A2 0 1 DIST1 3F800000 00000000 FFF92230 D05 3 1A 2B 3C'']
   = (Raised IndexError, lidar_init SENSOR_IP, [])"
  by code_simp

text \<open>
  C4, amended: while the loop is running, a malformed telegram (a token grid shorter than the
  required indices, or a numeric token that fails to parse) ends the loop: after any
  number of skipped telegrams, the error of \<open>decode_datagram\<close> is raised out of \<open>run\<close>, no
  later frame is processed, and the object, with its published scan, is as it was.
\<close>

theorem C4_malformed_raises:
  assumes "\<not> stop self"
    and "list_all (\<lambda>g. decode_datagram g = Inr None) skipped"
    and "\<not> well_formed_grid (bytes_split (CHR '' '') f)"
  shows "\<exists>e. run (self, h) (skipped @ f # rest) = (Raised e, self, h)"
proof -
  from assms(3) obtain e where e: "decode_datagram f = Inl e"
    using not_well_formed_decode by blast
  from assms(2) have "run (self, h) (skipped @ f # rest) = (Raised e, self, h)"
    by (induction skipped) (simp_all add: assms(1) e)
  then show ?thesis by blast
qed

theorem C4_malformed_raises_witness:
  "\<not> stop (lidar_init SENSOR_IP)
   \<and> list_all (\<lambda>g. decode_datagram g = Inr None) [telegram_other]
   \<and> \<not> well_formed_grid (bytes_split (CHR '' '') ''sSN LMDscandata 1 1 B96518 0 0 4A7 xyz'')
   \<and> (\<exists>e. run (lidar_init SENSOR_IP, []) ([telegram_other] @ ''sSN LMDscandata 1 1 B96518 0 0 4A7 xyz'' # [telegram_3])
             = (Raised e, lidar_init SENSOR_IP, []))"
proof -
  have s: "list_all (\<lambda>g. decode_datagram g = Inr None) [telegram_other]"
    by (simp add: telegram_other_skipped)
  have m: "\<not> well_formed_grid (bytes_split (CHR '' '') ''sSN LMDscandata 1 1 B96518 0 0 4A7 xyz'')"
    by code_simp
  from C4_malformed_raises [OF lidar_init_running s m, of SENSOR_IP "[]" "[telegram_3]"]
    lidar_init_running [of SENSOR_IP] s m
  show ?thesis by blast
qed

text \<open>
  C10 is about the interleavings of the thread that runs \<open>run\<close> with a thread that calls
  \<open>get\<close>. The functions above are sequential: \<open>get\<close> returns the reference stored in
  \<open>ds\<close>, and an assignment to \<open>ds\<close> is one step; what two threads may observe of each
  other is a property of the interpreter, which this development does not model.
\<close>

end
